theory Spec2Isabelle
  imports Complex_Main "HOL-Library.AList"
begin

section \<open>Python values\<close>

text \<open>
  The agents exchange untyped payloads (\<^verbatim>\<open>Dict[str, Any]\<close>). A payload value is one of the
  JSON-like Python values below; a dict is an association list in insertion order, as
  Python dicts iterate. Python floats are modelled as real numbers (exact arithmetic, no
  rounding).
\<close>

datatype pyval =
    PNone
  | PBool bool
  | PInt int
  | PFloat real
  | PStr string
  | PList "pyval list"
  | PDict "(string \<times> pyval) list"

type_synonym pydict = "(string \<times> pyval) list"

text \<open>Truth value of a Python object, as tested by \<^verbatim>\<open>if v:\<close>.\<close>

fun truthy :: "pyval \<Rightarrow> bool" where
  "truthy PNone = False"
| "truthy (PBool b) = b"
| "truthy (PInt i) = (i \<noteq> 0)"
| "truthy (PFloat r) = (r \<noteq> 0)"
| "truthy (PStr s) = (s \<noteq> [])"
| "truthy (PList xs) = (xs \<noteq> [])"
| "truthy (PDict d) = (d \<noteq> [])"

text \<open>\<^verbatim>\<open>d.get(k, default)\<close>; \<^verbatim>\<open>d[k] = v\<close> is \<^const>\<open>AList.update\<close>, which keeps the position of
  an existing key and appends a new one.\<close>

definition dict_get :: "pydict \<Rightarrow> string \<Rightarrow> pyval \<Rightarrow> pyval" where
  "dict_get d k dflt = (case map_of d k of Some v \<Rightarrow> v | None \<Rightarrow> dflt)"

text \<open>\<^verbatim>\<open>d.update(other)\<close>: the entries of \<^verbatim>\<open>other\<close> are stored one by one, in its order.\<close>

definition dict_update :: "pydict \<Rightarrow> pydict \<Rightarrow> pydict" where
  "dict_update d other = fold (\<lambda>(k, v). AList.update k v) other d"

text \<open>Exceptions raised by the interpreter or by a stage; a computation that may raise
  returns \<open>Inl\<close> of the exception.\<close>

datatype exn = TypeError | AttributeError | KeyError string | StageError string

text \<open>\<^verbatim>\<open>obj.get(k, default)\<close> on an arbitrary value: only a dict has the method.\<close>

definition py_get :: "pyval \<Rightarrow> string \<Rightarrow> pyval \<Rightarrow> exn + pyval" where
  "py_get obj k dflt = (case obj of PDict d \<Rightarrow> Inr (dict_get d k dflt) | _ \<Rightarrow> Inl AttributeError)"

text \<open>\<^verbatim>\<open>for x in obj\<close>: a list yields its elements, a string its characters, a dict its
  keys; the other values are not iterable.\<close>

fun py_iter :: "pyval \<Rightarrow> exn + pyval list" where
  "py_iter (PList xs) = Inr xs"
| "py_iter (PStr s) = Inr (map (\<lambda>c. PStr [c]) s)"
| "py_iter (PDict d) = Inr (map (\<lambda>kv. PStr (fst kv)) d)"
| "py_iter _ = Inl TypeError"

subsection \<open>Strings\<close>

text \<open>Strings are byte strings here; \<^verbatim>\<open>lower\<close> and \<^verbatim>\<open>strip\<close> are modelled on ASCII.\<close>

definition lower_char :: "char \<Rightarrow> char" where
  "lower_char c = (let n = (of_char c :: nat) in if 65 \<le> n \<and> n \<le> 90 then char_of (n + 32) else c)"

definition py_lower :: "string \<Rightarrow> string" where
  "py_lower s = map lower_char s"

definition is_space :: "char \<Rightarrow> bool" where
  "is_space c = (let n = (of_char c :: nat) in (9 \<le> n \<and> n \<le> 13) \<or> (28 \<le> n \<and> n \<le> 32))"

definition py_strip :: "string \<Rightarrow> string" where
  "py_strip s = rev (dropWhile is_space (rev (dropWhile is_space s)))"

text \<open>\<^verbatim>\<open>needle in haystack\<close> on strings.\<close>

fun py_contains :: "string \<Rightarrow> string \<Rightarrow> bool" where
  "py_contains needle [] = (needle = [])"
| "py_contains needle (c # cs) = (take (length needle) (c # cs) = needle \<or> py_contains needle cs)"

text \<open>\<^verbatim>\<open>s.replace(',', '')\<close>.\<close>

definition remove_commas :: "string \<Rightarrow> string" where
  "remove_commas s = filter (\<lambda>c. c \<noteq> CHR '','') s"

text \<open>Decimal digits of a natural number, for \<^verbatim>\<open>str\<close> of an int.\<close>

fun digits :: "nat \<Rightarrow> string" where
  "digits n = (if n < 10 then [char_of (48 + n)] else digits (n div 10) @ [char_of (48 + n mod 10)])"

declare digits.simps [simp del]

text \<open>
  Library functions of the interpreter that the agents call and that are not modelled
  further: \<^verbatim>\<open>re.search(pattern, text, re.IGNORECASE)\<close> returning group 1 of the match,
  \<^verbatim>\<open>float(s)\<close> (\<open>None\<close> for ValueError), \<^verbatim>\<open>repr\<close> of floats and containers, and the
  message text \<^verbatim>\<open>str(e)\<close> of an exception.
\<close>

record builtins =
  re_search :: "string \<Rightarrow> string \<Rightarrow> string option"
  py_float :: "string \<Rightarrow> real option"
  py_repr :: "pyval \<Rightarrow> string"
  exc_str :: "exn \<Rightarrow> string"

text \<open>\<^verbatim>\<open>str(v)\<close>.\<close>

fun py_str :: "builtins \<Rightarrow> pyval \<Rightarrow> string" where
  "py_str bi (PStr s) = s"
| "py_str bi PNone = ''None''"
| "py_str bi (PBool b) = (if b then ''True'' else ''False'')"
| "py_str bi (PInt i) = (if i < 0 then CHR ''-'' # digits (nat (- i)) else digits (nat i))"
| "py_str bi v = py_repr bi v"

section \<open>ValidationAgent (app/agents/validation\_agent.py)\<close>

definition field_priorities :: "(string \<times> string list) list" where
  "field_priorities =
    [(''name'', [''application_form'', ''government_id'', ''bank_statement'']),
     (''date_of_birth'', [''government_id'', ''application_form'', ''bank_statement'']),
     (''income'', [''bank_statement'', ''pay_stub'', ''tax_return'', ''application_form'']),
     (''address'', [''government_id'', ''utility_bill'', ''application_form'']),
     (''employment'', [''pay_stub'', ''application_form'', ''bank_statement''])]"

subsection \<open>Field extraction from the document texts\<close>

text \<open>The regular expressions, as written in the source (\<open>bs\<close> is the backslash).\<close>

definition bs :: char where
  "bs = CHR 0x5C"

definition name_patterns :: "string list" where
  "name_patterns =
    [''Name:'' @ bs # ''s*([A-Za-z'' @ bs # ''s]+)'',
     ''Full Name:'' @ bs # ''s*([A-Za-z'' @ bs # ''s]+)'',
     ''Applicant:'' @ bs # ''s*([A-Za-z'' @ bs # ''s]+)'']"

definition dob_tail :: string where
  "dob_tail = bs # ''s*('' @ bs # ''d{1,2}[/-]'' @ bs # ''d{1,2}[/-]'' @ bs # ''d{2,4})''"

definition dob_patterns :: "string list" where
  "dob_patterns = [''Date of Birth:'' @ dob_tail, ''DOB:'' @ dob_tail, ''Birth Date:'' @ dob_tail]"

definition income_tail :: string where
  "income_tail = bs # ''s*'' @ bs # ''$?(['' @ bs # ''d,]+'' @ bs # ''.?'' @ bs # ''d*)''"

definition income_patterns :: "string list" where
  "income_patterns = [''Monthly Income:'' @ income_tail, ''Income:'' @ income_tail, ''Salary:'' @ income_tail]"

definition line_tail :: string where
  "line_tail = bs # ''s*([^'' @ bs # ''n]+)''"

definition address_patterns :: "string list" where
  "address_patterns = [''Address:'' @ line_tail, ''Street Address:'' @ line_tail, ''Residence:'' @ line_tail]"

definition employment_patterns :: "string list" where
  "employment_patterns = [''Employer:'' @ line_tail, ''Company:'' @ line_tail, ''Workplace:'' @ line_tail]"

text \<open>
  The inner loop \<^verbatim>\<open>for pattern in patterns\<close> of the five extractors: the first pattern
  that matches decides, through \<open>post\<close>, what is returned; \<open>post\<close> yields \<open>None\<close> where the
  source continues with the next pattern (the ValueError branch of the income extractor).
\<close>

fun first_pattern :: "builtins \<Rightarrow> (string \<Rightarrow> pyval option) \<Rightarrow> string list \<Rightarrow> string \<Rightarrow> pyval option" where
  "first_pattern bi post [] text = None"
| "first_pattern bi post (p # ps) text =
     (case re_search bi p text of
        None \<Rightarrow> first_pattern bi post ps text
      | Some g \<Rightarrow> (case post g of Some v \<Rightarrow> Some v | None \<Rightarrow> first_pattern bi post ps text))"

text \<open>The outer loop \<^verbatim>\<open>for text in text_content\<close>; \<^verbatim>\<open>re.search\<close> on a value that is not a
  string raises TypeError.\<close>

fun scan_texts :: "builtins \<Rightarrow> (string \<Rightarrow> pyval option) \<Rightarrow> string list \<Rightarrow> pyval list \<Rightarrow> exn + pyval" where
  "scan_texts bi post pats [] = Inr PNone"
| "scan_texts bi post pats (PStr t # rest) =
     (case first_pattern bi post pats t of
        Some v \<Rightarrow> Inr v
      | None \<Rightarrow> scan_texts bi post pats rest)"
| "scan_texts bi post pats (_ # rest) = Inl TypeError"

definition scan_all_text_content ::
  "builtins \<Rightarrow> (string \<Rightarrow> pyval option) \<Rightarrow> string list \<Rightarrow> pyval \<Rightarrow> exn + pyval" where
  "scan_all_text_content bi post pats extracted_data =
     (case py_get extracted_data ''all_text_content'' (PList []) of
        Inl e \<Rightarrow> Inl e
      | Inr text_content \<Rightarrow>
          (case py_iter text_content of
             Inl e \<Rightarrow> Inl e
           | Inr texts \<Rightarrow> scan_texts bi post pats texts))"

definition extract_name_from_document :: "builtins \<Rightarrow> string \<Rightarrow> pyval \<Rightarrow> exn + pyval" where
  "extract_name_from_document bi doc_type extracted_data =
     scan_all_text_content bi (\<lambda>g. Some (PStr (py_strip g))) name_patterns extracted_data"

definition extract_dob_from_document :: "builtins \<Rightarrow> string \<Rightarrow> pyval \<Rightarrow> exn + pyval" where
  "extract_dob_from_document bi doc_type extracted_data =
     scan_all_text_content bi (\<lambda>g. Some (PStr g)) dob_patterns extracted_data"

definition extract_income_from_document :: "builtins \<Rightarrow> string \<Rightarrow> pyval \<Rightarrow> exn + pyval" where
  "extract_income_from_document bi doc_type extracted_data =
     scan_all_text_content bi (\<lambda>g. map_option PFloat (py_float bi (remove_commas g)))
       income_patterns extracted_data"

definition extract_address_from_document :: "builtins \<Rightarrow> string \<Rightarrow> pyval \<Rightarrow> exn + pyval" where
  "extract_address_from_document bi doc_type extracted_data =
     scan_all_text_content bi (\<lambda>g. Some (PStr (py_strip g))) address_patterns extracted_data"

definition extract_employment_from_document :: "builtins \<Rightarrow> string \<Rightarrow> pyval \<Rightarrow> exn + pyval" where
  "extract_employment_from_document bi doc_type extracted_data =
     scan_all_text_content bi (\<lambda>g. Some (PStr (py_strip g))) employment_patterns extracted_data"

text \<open>The loop \<^verbatim>\<open>for doc in extracted_data.get('document_types', [])\<close>: the first document
  whose type contains the queried type decides; \<^verbatim>\<open>doc.lower()\<close> on a value that is not a
  string raises AttributeError.\<close>

fun scan_docs :: "builtins \<Rightarrow> string \<Rightarrow> string \<Rightarrow> pyval \<Rightarrow> pyval list \<Rightarrow> exn + pyval" where
  "scan_docs bi field doc_type extracted_data [] = Inr PNone"
| "scan_docs bi field doc_type extracted_data (PStr doc # rest) =
     (if py_contains (py_lower doc_type) (py_lower doc) then
        (if field = ''name'' then extract_name_from_document bi doc extracted_data
         else if field = ''date_of_birth'' then extract_dob_from_document bi doc extracted_data
         else if field = ''income'' then extract_income_from_document bi doc extracted_data
         else if field = ''address'' then extract_address_from_document bi doc extracted_data
         else if field = ''employment'' then extract_employment_from_document bi doc extracted_data
         else scan_docs bi field doc_type extracted_data rest)
      else scan_docs bi field doc_type extracted_data rest)"
| "scan_docs bi field doc_type extracted_data (_ # rest) = Inl AttributeError"

text \<open>Any exception inside is caught and turned into \<^verbatim>\<open>None\<close>.\<close>

definition extract_field_from_documents :: "builtins \<Rightarrow> string \<Rightarrow> string \<Rightarrow> pyval \<Rightarrow> pyval" where
  "extract_field_from_documents bi field doc_type extracted_data =
     (case (case py_get extracted_data ''document_types'' (PList []) of
              Inl e \<Rightarrow> Inl e
            | Inr dts \<Rightarrow>
                (case py_iter dts of
                   Inl e \<Rightarrow> Inl e
                 | Inr docs \<Rightarrow> scan_docs bi field doc_type extracted_data docs)) of
        Inl e \<Rightarrow> PNone
      | Inr v \<Rightarrow> v)"

subsection \<open>Conflict detection\<close>

record conflict =
  conflict_field :: string
  conflict_values :: pydict
  conflict_priority_sources :: "string list"

text \<open>\<^verbatim>\<open>ValidationResult\<close> is declared in app/models/pydantic\_models.py, which is not among
  the sources; its fields are those the agent reads and writes. The confidence score is
  \<open>None\<close> until \<^verbatim>\<open>process\<close> assigns it.\<close>

record ValidationResult =
  is_valid :: bool
  conflicts :: "conflict list"
  resolved_data :: pydict
  validation_confidence_score :: "real option"

text \<open>The inner loop \<^verbatim>\<open>for doc_type in priority_sources\<close> filling \<^verbatim>\<open>field_values\<close>.\<close>

fun collect_doc_values :: "builtins \<Rightarrow> string \<Rightarrow> pyval \<Rightarrow> string list \<Rightarrow> pydict \<Rightarrow> pydict" where
  "collect_doc_values bi field extracted_data [] field_values = field_values"
| "collect_doc_values bi field extracted_data (doc_type # rest) field_values =
     (let doc_value = extract_field_from_documents bi field doc_type extracted_data
      in collect_doc_values bi field extracted_data rest
           (if truthy doc_value then AList.update doc_type doc_value field_values else field_values))"

text \<open>The observations of one field: \<^verbatim>\<open>field_values\<close> after both collection steps.\<close>

definition field_observations :: "builtins \<Rightarrow> string \<Rightarrow> string list \<Rightarrow> pydict \<Rightarrow> pyval \<Rightarrow> pydict" where
  "field_observations bi field priority_sources application_data extracted_data =
     (let app_value = dict_get application_data field PNone;
          field_values = (if truthy app_value then [(''application_form'', app_value)] else [])
      in collect_doc_values bi field extracted_data priority_sources field_values)"

text \<open>\<^verbatim>\<open>set(str(v).lower().strip() for v in field_values.values() if v)\<close>, as a list without
  duplicates.\<close>

definition normalize :: "builtins \<Rightarrow> pyval \<Rightarrow> string" where
  "normalize bi v = py_strip (py_lower (py_str bi v))"

definition unique_values :: "builtins \<Rightarrow> pydict \<Rightarrow> string list" where
  "unique_values bi field_values = remdups (map (normalize bi) (filter truthy (map snd field_values)))"

definition field_conflicts :: "builtins \<Rightarrow> string \<Rightarrow> string list \<Rightarrow> pydict \<Rightarrow> conflict list" where
  "field_conflicts bi field priority_sources field_values =
     (if length field_values > 1 then
        (if length (unique_values bi field_values) > 1 then
           [\<lparr>conflict_field = field, conflict_values = field_values,
             conflict_priority_sources = priority_sources\<rparr>]
         else [])
      else [])"

text \<open>The loop over \<^verbatim>\<open>self.field_priorities.items()\<close>, threading \<^verbatim>\<open>conflicts\<close> and
  \<^verbatim>\<open>validated_data\<close>.\<close>

fun validate_fields ::
  "builtins \<Rightarrow> (string \<times> string list) list \<Rightarrow> pydict \<Rightarrow> pyval \<Rightarrow> conflict list \<times> pydict
     \<Rightarrow> conflict list \<times> pydict" where
  "validate_fields bi [] application_data extracted_data acc = acc"
| "validate_fields bi ((field, priority_sources) # rest) application_data extracted_data (cs, validated_data) =
     (let field_values = field_observations bi field priority_sources application_data extracted_data;
          fc = field_conflicts bi field priority_sources field_values
      in validate_fields bi rest application_data extracted_data
           (cs @ fc, AList.update field (PDict field_values) validated_data))"

definition validate_information :: "builtins \<Rightarrow> pydict \<Rightarrow> pyval \<Rightarrow> ValidationResult" where
  "validate_information bi application_data extracted_data =
     (let (cs, validated_data) = validate_fields bi field_priorities application_data extracted_data ([], [])
      in \<lparr>is_valid = (length cs = 0), conflicts = cs, resolved_data = validated_data,
          validation_confidence_score = None\<rparr>)"

subsection \<open>Conflict resolution\<close>

text \<open>The first loop of \<^verbatim>\<open>_resolve_field_conflict\<close>, over the priority sources.\<close>

fun first_priority_value :: "pydict \<Rightarrow> string list \<Rightarrow> pyval option" where
  "first_priority_value vals [] = None"
| "first_priority_value vals (source # rest) =
     (case map_of vals source of
        Some v \<Rightarrow> (if truthy v then Some v else first_priority_value vals rest)
      | None \<Rightarrow> first_priority_value vals rest)"

text \<open>The second loop, over \<^verbatim>\<open>values.values()\<close>.\<close>

fun first_available_value :: "pyval list \<Rightarrow> pyval option" where
  "first_available_value [] = None"
| "first_available_value (v # rest) = (if truthy v then Some v else first_available_value rest)"

definition resolve_field_conflict :: "string \<Rightarrow> pydict \<Rightarrow> string list \<Rightarrow> pyval" where
  "resolve_field_conflict field vals priority_sources =
     (case first_priority_value vals priority_sources of
        Some v \<Rightarrow> v
      | None \<Rightarrow>
          (case first_available_value (map snd vals) of
             Some v \<Rightarrow> v
           | None \<Rightarrow> PNone))"

fun resolve_conflicts_loop :: "conflict list \<Rightarrow> pydict \<Rightarrow> pydict" where
  "resolve_conflicts_loop [] resolved = resolved"
| "resolve_conflicts_loop (c # cs) resolved =
     resolve_conflicts_loop cs
       (AList.update (conflict_field c)
          (resolve_field_conflict (conflict_field c) (conflict_values c) (conflict_priority_sources c))
          resolved)"

definition resolve_conflicts :: "conflict list \<Rightarrow> pyval \<Rightarrow> pydict" where
  "resolve_conflicts cs extracted_data = resolve_conflicts_loop cs []"


text \<open>The body of \<^verbatim>\<open>process\<close> between the input checks and the result: validation,
  resolution of the conflicts found, and the confidence score.\<close>

definition calculate_overall_confidence :: "ValidationResult \<Rightarrow> real" where
  "calculate_overall_confidence vr =
     (if conflicts vr = [] then 1.0
      else
        (let base_confidence = 0.7;
             conflict_penalty = min (real (length (conflicts vr)) * 0.1) 0.3;
             resolution_bonus = (if resolved_data vr \<noteq> [] then 0.1 else 0.0);
             final_confidence = base_confidence - conflict_penalty + resolution_bonus
         in max 0.0 (min 1.0 final_confidence)))"

definition reconcile :: "builtins \<Rightarrow> pydict \<Rightarrow> pyval \<Rightarrow> ValidationResult" where
  "reconcile bi application_data extracted_data =
     (let vr = validate_information bi application_data extracted_data;
          vr1 = (if conflicts vr \<noteq> [] then
                   vr\<lparr>resolved_data :=
                        dict_update (resolved_data vr) (resolve_conflicts (conflicts vr) extracted_data)\<rparr>
                 else vr)
      in vr1\<lparr>validation_confidence_score := Some (calculate_overall_confidence vr1)\<rparr>)"

subsection \<open>The stage result (BaseAgent, app/agents/base\_agent.py)\<close>

text \<open>\<^verbatim>\<open>ProcessingResult\<close> is declared in app/models/pydantic\_models.py, which is not among
  the sources; its fields are those that \<^verbatim>\<open>create_error_result\<close> and
  \<^verbatim>\<open>create_success_result\<close> set and the orchestrator reads.\<close>

record ProcessingResult =
  success :: bool
  data :: "pydict option"
  error :: "string option"
  confidence_score :: real

definition create_error_result :: "string \<Rightarrow> ProcessingResult" where
  "create_error_result error_message =
     \<lparr>success = False, data = None, error = Some error_message, confidence_score = 0.0\<rparr>"

definition create_success_result :: "pydict \<Rightarrow> real \<Rightarrow> ProcessingResult" where
  "create_success_result d confidence =
     \<lparr>success = True, data = Some d, error = None, confidence_score = confidence\<rparr>"

text \<open>An optional dict and an optional string as payload values.\<close>

definition opt_dict :: "pydict option \<Rightarrow> pyval" where
  "opt_dict d = (case d of None \<Rightarrow> PNone | Some x \<Rightarrow> PDict x)"

definition opt_str :: "string option \<Rightarrow> pyval" where
  "opt_str s = (case s of None \<Rightarrow> PNone | Some x \<Rightarrow> PStr x)"

subsection \<open>ValidationAgent.process\<close>

definition conflict_dict :: "conflict \<Rightarrow> pyval" where
  "conflict_dict c =
     PDict [(''field'', PStr (conflict_field c)),
            (''values'', PDict (conflict_values c)),
            (''priority_sources'', PList (map PStr (conflict_priority_sources c)))]"

text \<open>\<^verbatim>\<open>validation_result.dict()\<close>.\<close>

definition validation_result_dict :: "ValidationResult \<Rightarrow> pydict" where
  "validation_result_dict vr =
     [(''is_valid'', PBool (is_valid vr)),
      (''conflicts'', PList (map conflict_dict (conflicts vr))),
      (''resolved_data'', PDict (resolved_data vr)),
      (''confidence_score'',
         (case validation_confidence_score vr of None \<Rightarrow> PNone | Some c \<Rightarrow> PFloat c))]"

text \<open>The input is a dict by its type, so \<^verbatim>\<open>validate_input\<close> holds. An
  \<^verbatim>\<open>application_data\<close> that is not a dict has no \<^verbatim>\<open>get\<close>: AttributeError, caught by the
  handler of \<^verbatim>\<open>process\<close>.\<close>

definition validation_process :: "builtins \<Rightarrow> pydict \<Rightarrow> ProcessingResult" where
  "validation_process bi input_payload =
     (let application_data = dict_get input_payload ''application_data'' (PDict []);
          extracted_data = dict_get input_payload ''extracted_data'' (PDict [])
      in if \<not> truthy application_data \<or> \<not> truthy extracted_data then
           create_error_result ''Missing application or extracted data''
         else
           (case application_data of
              PDict app \<Rightarrow>
                (let vr = reconcile bi app extracted_data;
                     overall_confidence = calculate_overall_confidence vr
                 in create_success_result
                      [(''validation_result'', PDict (validation_result_dict vr)),
                       (''is_valid'', PBool (is_valid vr)),
                       (''confidence'', PFloat overall_confidence)]
                      overall_confidence)
            | _ \<Rightarrow> create_error_result (''Validation failed: '' @ exc_str bi AttributeError)))"


section \<open>MasterAgent (app/agents/master\_agent.py)\<close>

text \<open>
  What a run takes from its environment: the generated workflow id, the clock readings
  (start, end, and the time stamp of the error recorded for a step), and the text of
  \<^verbatim>\<open>_generate_decision_explanation\<close>, whose number formatting is not modelled (it may raise).
\<close>

record env =
  new_workflow_id :: string
  clock_start :: string
  clock_end :: string
  clock_error :: "string \<Rightarrow> string"
  decision_explanation :: "pyval \<Rightarrow> exn + string"

text \<open>A stage is a function of its input payload that returns a result or raises.\<close>

type_synonym agent = "pydict \<Rightarrow> exn + ProcessingResult"

record agents =
  extraction_agent :: agent
  validation_agent :: agent
  eligibility_agent :: agent

text \<open>\<^verbatim>\<open>self.agents.get(step_name)\<close>.\<close>

definition agents_get :: "agents \<Rightarrow> string \<Rightarrow> agent option" where
  "agents_get ags step_name =
     map_of [(''extraction'', extraction_agent ags),
             (''validation'', validation_agent ags),
             (''eligibility'', eligibility_agent ags)] step_name"

definition workflow_steps :: "string list" where
  "workflow_steps = [''extraction'', ''validation'', ''eligibility'']"

record workflow_state =
  workflow_id :: string
  start_time :: string
  end_time :: "string option"
  current_step :: nat
  total_steps :: nat
  results :: pydict
  errors :: "pydict list"
  status :: string

text \<open>One call of an agent's \<^verbatim>\<open>process\<close>: the stage, the input it was given, and what came
  back. The run keeps the calls in order, so that what was invoked, and with what, can be
  stated.\<close>

record invocation =
  inv_step :: string
  inv_input :: pydict
  inv_outcome :: "exn + ProcessingResult"

definition prepare_step_input :: "string \<Rightarrow> pydict \<Rightarrow> workflow_state \<Rightarrow> pydict" where
  "prepare_step_input step_name current_input wst =
     (let step_input =
            fold (\<lambda>(prev_step, result) si.
                    if map_of si prev_step \<noteq> None
                    then AList.update (prev_step @ ''_result'') result si
                    else AList.update prev_step result si)
                 (results wst) current_input
      in AList.update ''workflow_context''
           (PDict [(''workflow_id'', PStr (workflow_id wst)),
                   (''current_step'', PStr step_name),
                   (''previous_results'', PDict (results wst))])
           step_input)"

definition execute_agent_step ::
  "builtins \<Rightarrow> agents \<Rightarrow> string \<Rightarrow> pydict \<Rightarrow> workflow_state \<Rightarrow> ProcessingResult \<times> invocation list" where
  "execute_agent_step bi ags step_name current_input wst =
     (case agents_get ags step_name of
        None \<Rightarrow> (create_error_result (''Agent '' @ step_name @ '' not found''), [])
      | Some agent \<Rightarrow>
          (let step_input = prepare_step_input step_name current_input wst;
               outcome = agent step_input;
               call = \<lparr>inv_step = step_name, inv_input = step_input, inv_outcome = outcome\<rparr>
           in case outcome of
                Inr step_result \<Rightarrow> (step_result, [call])
              | Inl e \<Rightarrow> (create_error_result (''Step execution failed: '' @ exc_str bi e), [call])))"

text \<open>\<^verbatim>\<open>'resolved_data' in step_result.data\<close> raises TypeError when the data is \<^verbatim>\<open>None\<close>.\<close>

definition prepare_input_for_next_step :: "string \<Rightarrow> ProcessingResult \<Rightarrow> pydict \<Rightarrow> exn + pydict" where
  "prepare_input_for_next_step step_name step_result current_input =
     (let next_input = AList.update (step_name @ ''_result'') (opt_dict (data step_result)) current_input
      in if step_name = ''extraction'' \<and> success step_result then
           Inr (AList.update ''extracted_data'' (opt_dict (data step_result)) next_input)
         else if step_name = ''validation'' \<and> success step_result then
           (let next_input1 = AList.update ''validation_result'' (opt_dict (data step_result)) next_input
            in case data step_result of
                 None \<Rightarrow> Inl TypeError
               | Some d \<Rightarrow>
                   (case map_of d ''resolved_data'' of
                      Some rd \<Rightarrow> Inr (AList.update ''validated_application_data'' rd next_input1)
                    | None \<Rightarrow> Inr next_input1))
         else if step_name = ''eligibility'' \<and> success step_result then
           Inr (AList.update ''eligibility_result'' (opt_dict (data step_result)) next_input)
         else Inr next_input)"

definition should_continue_after_error :: "string \<Rightarrow> string option \<Rightarrow> bool" where
  "should_continue_after_error step_name err =
     (let critical_steps = [''extraction'']
      in if step_name \<in> set critical_steps then False else True)"

definition determine_final_status :: "workflow_state \<Rightarrow> string" where
  "determine_final_status wst =
     (if status wst = ''failed'' then ''failed''
      else if errors wst \<noteq> [] then ''completed_with_errors''
      else if length (results wst) = length workflow_steps then ''completed_successfully''
      else ''incomplete'')"

subsection \<open>The loop over the workflow steps\<close>

record run_state =
  rs_workflow :: workflow_state
  rs_input :: pydict
  rs_invocations :: "invocation list"

definition error_record :: "env \<Rightarrow> string \<Rightarrow> string option \<Rightarrow> pydict" where
  "error_record ev step_name err =
     [(''step'', PStr step_name), (''error'', opt_str err), (''timestamp'', PStr (clock_error ev step_name))]"

text \<open>The handler \<^verbatim>\<open>except Exception as e\<close> of one iteration; the flag says whether the loop
  is left (\<^verbatim>\<open>break\<close>).\<close>

definition step_exception :: "builtins \<Rightarrow> env \<Rightarrow> string \<Rightarrow> exn \<Rightarrow> run_state \<Rightarrow> run_state \<times> bool" where
  "step_exception bi ev step_name e st =
     (let error_msg = ''Unexpected error in step '' @ step_name @ '': '' @ exc_str bi e;
          wst = rs_workflow st;
          wst1 = wst\<lparr>errors := errors wst @ [error_record ev step_name (Some error_msg)]\<rparr>
      in if \<not> should_continue_after_error step_name (Some error_msg)
         then (st\<lparr>rs_workflow := wst1\<lparr>status := ''failed''\<rparr>\<rparr>, True)
         else (st\<lparr>rs_workflow := wst1\<rparr>, False))"

text \<open>One iteration of \<^verbatim>\<open>for step_idx, step_name in enumerate(self.workflow_steps)\<close>.\<close>

definition step_body :: "builtins \<Rightarrow> env \<Rightarrow> agents \<Rightarrow> nat \<Rightarrow> string \<Rightarrow> run_state \<Rightarrow> run_state \<times> bool" where
  "step_body bi ev ags step_idx step_name st =
     (let wst1 = (rs_workflow st)\<lparr>current_step := step_idx + 1, status := ''processing_'' @ step_name\<rparr>;
          (step_result, calls) = execute_agent_step bi ags step_name (rs_input st) wst1;
          st1 = st\<lparr>rs_workflow := wst1, rs_invocations := rs_invocations st @ calls\<rparr>
      in if success step_result then
           (let wst2 = wst1\<lparr>results := AList.update step_name (opt_dict (data step_result)) (results wst1)\<rparr>;
                st2 = st1\<lparr>rs_workflow := wst2\<rparr>
            in case prepare_input_for_next_step step_name step_result (rs_input st) of
                 Inr next_input \<Rightarrow> (st2\<lparr>rs_input := next_input\<rparr>, False)
               | Inl e \<Rightarrow> step_exception bi ev step_name e st2)
         else
           (let wst2 = wst1\<lparr>errors := errors wst1 @ [error_record ev step_name (error step_result)]\<rparr>;
                st2 = st1\<lparr>rs_workflow := wst2\<rparr>
            in if \<not> should_continue_after_error step_name (error step_result)
               then (st2\<lparr>rs_workflow := wst2\<lparr>status := ''failed''\<rparr>\<rparr>, True)
               else
                 (case prepare_input_for_next_step step_name step_result (rs_input st) of
                    Inr next_input \<Rightarrow> (st2\<lparr>rs_input := next_input\<rparr>, False)
                  | Inl e \<Rightarrow> step_exception bi ev step_name e st2)))"

fun run_steps :: "builtins \<Rightarrow> env \<Rightarrow> agents \<Rightarrow> nat \<Rightarrow> string list \<Rightarrow> run_state \<Rightarrow> run_state" where
  "run_steps bi ev ags step_idx [] st = st"
| "run_steps bi ev ags step_idx (step_name # rest) st =
     (case step_body bi ev ags step_idx step_name st of
        (st', left) \<Rightarrow> if left then st' else run_steps bi ev ags (Suc step_idx) rest st')"

subsection \<open>Aggregation and confidence\<close>

text \<open>Sequencing of computations that may raise.\<close>

definition bind_exn :: "exn + 'a \<Rightarrow> ('a \<Rightarrow> exn + 'b) \<Rightarrow> exn + 'b" where
  "bind_exn m f = (case m of Inl e \<Rightarrow> Inl e | Inr x \<Rightarrow> f x)"

text \<open>\<^verbatim>\<open>k in obj\<close> for a string \<open>k\<close>, and \<^verbatim>\<open>obj[k]\<close>.\<close>

fun py_in :: "string \<Rightarrow> pyval \<Rightarrow> exn + bool" where
  "py_in k (PDict d) = Inr (map_of d k \<noteq> None)"
| "py_in k (PList xs) = Inr (PStr k \<in> set xs)"
| "py_in k (PStr s) = Inr (py_contains k s)"
| "py_in k _ = Inl TypeError"

fun py_getitem :: "pyval \<Rightarrow> string \<Rightarrow> exn + pyval" where
  "py_getitem (PDict d) k = (case map_of d k of Some v \<Rightarrow> Inr v | None \<Rightarrow> Inl (KeyError k))"
| "py_getitem _ k = Inl TypeError"

text \<open>The value of a number in float arithmetic (\<^verbatim>\<open>total += x\<close>); other values raise.\<close>

fun py_number :: "pyval \<Rightarrow> exn + real" where
  "py_number (PFloat r) = Inr r"
| "py_number (PInt i) = Inr (real_of_int i)"
| "py_number (PBool b) = Inr (if b then 1 else 0)"
| "py_number _ = Inl TypeError"

definition generate_recommendations :: "pyval \<Rightarrow> exn + pyval" where
  "generate_recommendations decision_data =
     bind_exn (py_get decision_data ''prediction'' (PStr ''unknown'')) (\<lambda>prediction.
       Inr (PList (map PStr
         (if prediction = PStr ''soft_decline'' then
            [''Consider improving credit score through timely bill payments'',
             ''Reduce existing debt to improve debt-to-income ratio'',
             ''Provide additional employment verification documents'',
             ''Consider applying for smaller loan amounts initially'']
          else if prediction = PStr ''hard_decline'' then
            [''Focus on building credit history'',
             ''Improve employment stability'',
             ''Reduce monthly expenses'',
             ''Consider financial counseling services'']
          else if prediction = PStr ''approve'' then
            [''Maintain current financial practices'',
             ''Continue building positive credit history'',
             ''Consider setting up automatic payments'']
          else []))))"

text \<open>The dict stored under \<^verbatim>\<open>'final_decision'\<close>, its four entries evaluated in order.\<close>

definition final_decision :: "env \<Rightarrow> pyval \<Rightarrow> exn + pyval" where
  "final_decision ev decision_data =
     bind_exn (py_getitem decision_data ''prediction'') (\<lambda>prediction.
     bind_exn (py_getitem decision_data ''confidence'') (\<lambda>confidence.
     bind_exn (decision_explanation ev decision_data) (\<lambda>explanation.
     bind_exn (generate_recommendations decision_data) (\<lambda>recommendations.
       Inr (PDict [(''decision'', prediction),
                   (''confidence'', confidence),
                   (''explanation'', PStr explanation),
                   (''recommendations'', recommendations)])))))"

definition aggregate_workflow_results :: "env \<Rightarrow> workflow_state \<Rightarrow> exn + pydict" where
  "aggregate_workflow_results ev wst =
     (case end_time wst of
        None \<Rightarrow> Inl (KeyError ''end_time'')
      | Some finished \<Rightarrow>
          (let aggregated_result =
                 [(''workflow_id'', PStr (workflow_id wst)),
                  (''status'', PStr (status wst)),
                  (''start_time'', PStr (start_time wst)),
                  (''end_time'', PStr finished),
                  (''total_steps'', PInt (int (total_steps wst))),
                  (''completed_steps'', PInt (int (length (results wst)))),
                  (''errors'', PList (map PDict (errors wst)))];
               with_steps =
                 fold (\<lambda>(step_name, result). AList.update (step_name @ ''_result'') result)
                      (results wst) aggregated_result
           in case map_of (results wst) ''eligibility_result'' of
                None \<Rightarrow> Inr with_steps
              | Some eligibility_data \<Rightarrow>
                  bind_exn (py_in ''decision'' eligibility_data) (\<lambda>present.
                    if present then
                      bind_exn (py_getitem eligibility_data ''decision'') (\<lambda>decision_data.
                      bind_exn (final_decision ev decision_data) (\<lambda>fd.
                        Inr (AList.update ''final_decision'' fd with_steps)))
                    else Inr with_steps)))"

text \<open>The loop of \<^verbatim>\<open>_calculate_workflow_confidence\<close>, threading \<^verbatim>\<open>total_confidence\<close> and
  \<^verbatim>\<open>step_count\<close>.\<close>

fun sum_confidences :: "pyval list \<Rightarrow> real \<times> nat \<Rightarrow> exn + real \<times> nat" where
  "sum_confidences [] acc = Inr acc"
| "sum_confidences (result # rest) (total_confidence, step_count) =
     bind_exn (py_in ''confidence'' result) (\<lambda>present.
       if present then
         bind_exn (py_getitem result ''confidence'') (\<lambda>c.
         bind_exn (py_number c) (\<lambda>x.
           sum_confidences rest (total_confidence + x, step_count + 1)))
       else sum_confidences rest (total_confidence, step_count))"

definition calculate_workflow_confidence :: "workflow_state \<Rightarrow> exn + real" where
  "calculate_workflow_confidence wst =
     (if results wst = [] then Inr 0.0
      else
        bind_exn (sum_confidences (map snd (results wst)) (0.0, 0)) (\<lambda>(total_confidence, step_count).
          if step_count = 0 then Inr 0.0
          else
            (let error_penalty = min (real (length (errors wst)) * 0.1) 0.3;
                 avg_confidence = total_confidence / real step_count;
                 final_confidence = avg_confidence - error_penalty
             in Inr (max 0.0 (min 1.0 final_confidence)))))"

subsection \<open>MasterAgent.process\<close>

text \<open>A finished run: the terminal workflow state, the agent calls made, and the result
  returned to the invoker.\<close>

record run =
  run_state :: workflow_state
  run_invocations :: "invocation list"
  run_result :: ProcessingResult

definition process :: "builtins \<Rightarrow> env \<Rightarrow> agents \<Rightarrow> pydict \<Rightarrow> run" where
  "process bi ev ags input_payload =
     (let wst0 = \<lparr>workflow_id = new_workflow_id ev, start_time = clock_start ev, end_time = None,
                  current_step = 0, total_steps = length workflow_steps, results = [],
                  errors = [], status = ''processing''\<rparr>;
          st = run_steps bi ev ags 0 workflow_steps
                 \<lparr>rs_workflow = wst0, rs_input = input_payload, rs_invocations = []\<rparr>;
          wst1 = (rs_workflow st)\<lparr>end_time := Some (clock_end ev)\<rparr>;
          wst2 = wst1\<lparr>status := determine_final_status wst1\<rparr>;
          returned =
            (case aggregate_workflow_results ev wst2 of
               Inl e \<Rightarrow> create_error_result (''Workflow execution failed: '' @ exc_str bi e)
             | Inr final_result \<Rightarrow>
                 if status wst2 \<in> set [''failed'', ''completed_with_errors''] then
                   create_error_result (''Workflow completed with errors: '' @ status wst2)
                 else
                   (case calculate_workflow_confidence wst2 of
                      Inl e \<Rightarrow> create_error_result (''Workflow execution failed: '' @ exc_str bi e)
                    | Inr confidence \<Rightarrow> create_success_result final_result confidence))
      in \<lparr>run_state = wst2, run_invocations = rs_invocations st, run_result = returned\<rparr>)"

section \<open>Observing a run\<close>

text \<open>A call failed when the agent raised or returned a result with \<^verbatim>\<open>success=False\<close>.\<close>

definition outcome_failed :: "exn + ProcessingResult \<Rightarrow> bool" where
  "outcome_failed out = (case out of Inl e \<Rightarrow> True | Inr r \<Rightarrow> \<not> success r)"

text \<open>The result that \<^verbatim>\<open>_execute_agent_step\<close> hands to the loop for a call's outcome.\<close>

definition returned_result :: "builtins \<Rightarrow> exn + ProcessingResult \<Rightarrow> ProcessingResult" where
  "returned_result bi out =
     (case out of Inr r \<Rightarrow> r
      | Inl e \<Rightarrow> create_error_result (''Step execution failed: '' @ exc_str bi e))"

text \<open>What a call leaves in \<^verbatim>\<open>workflow_state['results']\<close>.\<close>

definition record_result :: "builtins \<Rightarrow> string \<Rightarrow> exn + ProcessingResult \<Rightarrow> pydict \<Rightarrow> pydict" where
  "record_result bi step_name out rs =
     (if outcome_failed out then rs
      else AList.update step_name (opt_dict (data (returned_result bi out))) rs)"

definition stage_invoked :: "run \<Rightarrow> string \<Rightarrow> bool" where
  "stage_invoked r step_name = (\<exists>c \<in> set (run_invocations r). inv_step c = step_name)"

definition stage_failed :: "run \<Rightarrow> string \<Rightarrow> bool" where
  "stage_failed r step_name =
     (\<exists>c \<in> set (run_invocations r). inv_step c = step_name \<and> outcome_failed (inv_outcome c))"

definition stage_succeeded :: "run \<Rightarrow> string \<Rightarrow> bool" where
  "stage_succeeded r step_name =
     (\<exists>c \<in> set (run_invocations r). inv_step c = step_name \<and> \<not> outcome_failed (inv_outcome c))"

text \<open>The call that iteration \<open>idx\<close> of the loop makes from the state \<open>st\<close>.\<close>

definition step_call :: "agent \<Rightarrow> nat \<Rightarrow> string \<Rightarrow> run_state \<Rightarrow> invocation" where
  "step_call ag idx s st =
     (let sin = prepare_step_input s (rs_input st)
                  ((rs_workflow st)\<lparr>current_step := idx + 1, status := ''processing_'' @ s\<rparr>)
      in \<lparr>inv_step = s, inv_input = sin, inv_outcome = ag sin\<rparr>)"

text \<open>The value that \<^verbatim>\<open>_prepare_input_for_next_step\<close> stores under
  \<^verbatim>\<open>'validated_application_data'\<close> after a validation call with this outcome, if any.\<close>

definition promoted_data :: "builtins \<Rightarrow> exn + ProcessingResult \<Rightarrow> pyval option" where
  "promoted_data bi out =
     (if outcome_failed out then None
      else case data (returned_result bi out) of
             None \<Rightarrow> None
           | Some d \<Rightarrow> map_of d ''resolved_data'')"

section \<open>Observing a reconciliation\<close>

text \<open>A source has a value in an observation map when its entry is present and non-empty
  (\<^verbatim>\<open>source in values and values[source]\<close>).\<close>

definition has_value :: "pydict \<Rightarrow> string \<Rightarrow> bool" where
  "has_value vals source = (case map_of vals source of Some v \<Rightarrow> truthy v | None \<Rightarrow> False)"

section \<open>A concrete pipeline\<close>

text \<open>
  Inputs on which the statements below are exercised. The regular-expression search is
  replaced by a search for the label of the pattern (the text before its colon) at the start
  of the text, the match being the rest of the text; \<^verbatim>\<open>float\<close> reads a sequence of digits.
\<close>

definition label_search :: "string \<Rightarrow> string \<Rightarrow> string option" where
  "label_search pattern text =
     (let label = takeWhile (\<lambda>c. c \<noteq> CHR '':'') pattern
      in if take (length label + 1) text = label @ '':'' then Some (drop (length label + 1) text)
         else None)"

definition digits_float :: "string \<Rightarrow> real option" where
  "digits_float s =
     (if s \<noteq> [] \<and> list_all (\<lambda>c. 48 \<le> (of_char c :: nat) \<and> (of_char c :: nat) \<le> 57) s
      then Some (real (fold (\<lambda>c n. 10 * n + ((of_char c :: nat) - 48)) s 0)) else None)"

definition demo_builtins :: builtins where
  "demo_builtins = \<lparr>re_search = label_search, py_float = digits_float,
     py_repr = (\<lambda>v. ''<repr>''), exc_str = (\<lambda>e. ''<exception>'')\<rparr>"

definition demo_env :: env where
  "demo_env = \<lparr>new_workflow_id = ''wf-1'', clock_start = ''t0'', clock_end = ''t9'',
     clock_error = (\<lambda>s. ''t5''), decision_explanation = (\<lambda>d. Inr ''explained'')\<rparr>"

definition demo_input :: pydict where
  "demo_input =
     [(''application_data'', PDict [(''name'', PStr ''Jane Roe''), (''income'', PInt 5000)]),
      (''documents'',
         PList [PDict [(''file_path'', PStr ''statement.txt''), (''file_type'', PStr ''txt'')]])]"

text \<open>An extraction stage that returns what the ExtractionAgent consolidates from one text
  file, one that finds no documents, an eligibility stage that approves, and one whose model
  raises.\<close>

definition extraction_ok :: agent where
  "extraction_ok inp = Inr (create_success_result
     [(''total_documents'', PInt 1),
      (''document_types'', PList [PStr ''text'']),
      (''all_text_content'', PList [PStr ''Monthly Income:4800'']),
      (''structured_data'', PDict []),
      (''confidence_scores'', PList [PFloat 0])] 0.9)"

definition extraction_failing :: agent where
  "extraction_failing inp = Inr (create_error_result ''No documents provided'')"

definition eligibility_ok :: agent where
  "eligibility_ok inp = Inr (create_success_result
     [(''decision'', PDict [(''prediction'', PStr ''approve''), (''confidence'', PFloat 0.8),
         (''probability_scores'', PDict []), (''features'', PList []), (''shap_values'', PDict [])]),
      (''model_version'', PStr ''1.0.0''),
      (''features_used'', PList [])] 0.8)"

definition eligibility_failing :: agent where
  "eligibility_failing inp = Inl (StageError ''model not loaded'')"

definition demo_agents :: agents where
  "demo_agents = \<lparr>extraction_agent = extraction_ok,
     validation_agent = (\<lambda>inp. Inr (validation_process demo_builtins inp)),
     eligibility_agent = eligibility_ok\<rparr>"

definition aborting_agents :: agents where
  "aborting_agents = demo_agents\<lparr>extraction_agent := extraction_failing\<rparr>"

definition degraded_agents :: agents where
  "degraded_agents = demo_agents\<lparr>eligibility_agent := eligibility_failing\<rparr>"

section \<open>Properties of the conflict resolution\<close>

lemma first_priority_value_find:
  "first_priority_value vals prio =
     (case List.find (has_value vals) prio of Some s \<Rightarrow> map_of vals s | None \<Rightarrow> None)"
  by (induction prio) (auto simp: has_value_def split: option.splits)

lemma first_available_value_find: "first_available_value vs = List.find truthy vs"
  by (induction vs) auto

text \<open>
  Claim C6. The resolved value of a conflict is the value of the first source of the
  priority order whose observed value is present and non-empty; when no priority source
  has one, it is the first non-empty value of the observation map in its iteration order,
  and \<^verbatim>\<open>None\<close> when every value is empty.
\<close>

theorem resolve_field_conflict_policy:
  "(List.find (has_value vals) priority_sources = Some s \<longrightarrow>
      map_of vals s = Some (resolve_field_conflict field vals priority_sources)) \<and>
   (List.find (has_value vals) priority_sources = None \<longrightarrow>
      resolve_field_conflict field vals priority_sources =
        (case List.find truthy (map snd vals) of Some v \<Rightarrow> v | None \<Rightarrow> PNone))"
  unfolding resolve_field_conflict_def first_priority_value_find first_available_value_find
  by (cases "List.find (has_value vals) priority_sources")
     (auto simp: has_value_def dest!: find_Some_iff [THEN iffD1] split: option.splits)

theorem resolve_field_conflict_policy_witness:
  "List.find (has_value [(''application_form'', PInt 5000), (''bank_statement'', PFloat 4800)])
     [''bank_statement'', ''pay_stub'', ''tax_return'', ''application_form''] = Some ''bank_statement'' \<and>
   resolve_field_conflict ''income''
     [(''application_form'', PInt 5000), (''bank_statement'', PFloat 4800)]
     [''bank_statement'', ''pay_stub'', ''tax_return'', ''application_form''] = PFloat 4800"
  using resolve_field_conflict_policy
    [of "[(''application_form'', PInt 5000), (''bank_statement'', PFloat 4800)]"
        "[''bank_statement'', ''pay_stub'', ''tax_return'', ''application_form'']"
        "''bank_statement''" "''income''"]
  by (simp add: has_value_def)

section \<open>The shape of a run\<close>

lemma agents_get_simps:
  "agents_get ags ''extraction'' = Some (extraction_agent ags)"
  "agents_get ags ''validation'' = Some (validation_agent ags)"
  "agents_get ags ''eligibility'' = Some (eligibility_agent ags)"
  by (simp_all add: agents_get_def)

lemma execute_agent_step_known:
  assumes "agents_get ags s = Some ag"
  shows "execute_agent_step bi ags s inp w =
     (returned_result bi (ag (prepare_step_input s inp w)),
      [\<lparr>inv_step = s, inv_input = prepare_step_input s inp w,
        inv_outcome = ag (prepare_step_input s inp w)\<rparr>])"
  using assms by (simp add: execute_agent_step_def returned_result_def Let_def split: sum.splits)

lemma success_returned_result: "success (returned_result bi out) = (\<not> outcome_failed out)"
  by (simp add: returned_result_def outcome_failed_def create_error_result_def split: sum.splits)

lemma should_continue_iff: "should_continue_after_error s e = (s \<noteq> ''extraction'')"
  by (simp add: should_continue_after_error_def)

lemma prepare_next_raises_iff:
  "(\<exists>e. prepare_input_for_next_step s r inp = Inl e) = (s = ''validation'' \<and> success r \<and> data r = None)"
  by (auto simp: prepare_input_for_next_step_def Let_def split: option.splits)

lemma step_call_simps:
  "inv_step (step_call ag idx s st) = s"
  "inv_outcome (step_call ag idx s st) = ag (inv_input (step_call ag idx s st))"
  "inv_input (step_call ag idx s st) = prepare_step_input s (rs_input st)
      ((rs_workflow st)\<lparr>current_step := idx + 1, status := ''processing_'' @ s\<rparr>)"
  by (simp_all add: step_call_def Let_def)

lemma step_body_facts:
  fixes bi :: builtins and ev :: env and ags :: agents and idx :: nat and s :: string
    and st :: run_state and ag :: agent
  assumes ag: "agents_get ags s = Some ag"
  defines "b \<equiv> step_body bi ev ags idx s st"
  defines "c \<equiv> step_call ag idx s st"
  defines "res \<equiv> returned_result bi (inv_outcome (step_call ag idx s st))"
  shows "rs_invocations (fst b) = rs_invocations st @ [c]"
    and "snd b = (s = ''extraction'' \<and> outcome_failed (inv_outcome c))"
    and "status (rs_workflow (fst b)) = (if snd b then ''failed'' else ''processing_'' @ s)"
    and "results (rs_workflow (fst b)) = record_result bi s (inv_outcome c) (results (rs_workflow st))"
    and "(errors (rs_workflow (fst b)) = []) =
           (errors (rs_workflow st) = [] \<and> \<not> outcome_failed (inv_outcome c) \<and>
            \<not> (s = ''validation'' \<and> data res = None))"
    and "rs_input (fst b) =
           (if snd b then rs_input st
            else case prepare_input_for_next_step s res (rs_input st) of
                   Inr n \<Rightarrow> n | Inl e \<Rightarrow> rs_input st)"
    and "end_time (rs_workflow (fst b)) = end_time (rs_workflow st)"
proof -
  let ?w1 = "(rs_workflow st)\<lparr>current_step := idx + 1, status := ''processing_'' @ s\<rparr>"
  have ex: "execute_agent_step bi ags s (rs_input st) ?w1 = (res, [c])"
    unfolding c_def res_def step_call_def Let_def invocation.select_convs
    by (rule execute_agent_step_known [OF ag])
  have sr: "success res = (\<not> outcome_failed (inv_outcome c))"
    unfolding res_def c_def by (rule success_returned_result)
  have pr: "(\<exists>e. prepare_input_for_next_step s res (rs_input st) = Inl e) =
              (s = ''validation'' \<and> success res \<and> data res = None)"
    by (rule prepare_next_raises_iff)
  have rc: "returned_result bi (inv_outcome c) = res"
    by (simp add: res_def c_def)
  note defs = b_def step_body_def Let_def ex
  show "rs_invocations (fst b) = rs_invocations st @ [c]"
    unfolding defs by (simp add: step_exception_def Let_def split: sum.splits)
  show "snd b = (s = ''extraction'' \<and> outcome_failed (inv_outcome c))"
    unfolding defs using pr
    by (auto simp: step_exception_def Let_def should_continue_iff sr split: sum.splits)
  show "status (rs_workflow (fst b)) = (if snd b then ''failed'' else ''processing_'' @ s)"
    unfolding defs using pr
    by (auto simp: step_exception_def Let_def should_continue_iff sr split: sum.splits)
  show "results (rs_workflow (fst b)) = record_result bi s (inv_outcome c) (results (rs_workflow st))"
    unfolding defs record_result_def rc
    by (auto simp: step_exception_def Let_def should_continue_iff sr split: sum.splits)
  show "(errors (rs_workflow (fst b)) = []) =
           (errors (rs_workflow st) = [] \<and> \<not> outcome_failed (inv_outcome c) \<and>
            \<not> (s = ''validation'' \<and> data res = None))"
    unfolding defs using pr
    by (auto simp: step_exception_def Let_def should_continue_iff sr split: sum.splits)
  show "rs_input (fst b) =
           (if snd b then rs_input st
            else case prepare_input_for_next_step s res (rs_input st) of
                   Inr n \<Rightarrow> n | Inl e \<Rightarrow> rs_input st)"
    unfolding defs using pr
    by (auto simp: step_exception_def Let_def should_continue_iff sr split: sum.splits)
  show "end_time (rs_workflow (fst b)) = end_time (rs_workflow st)"
    unfolding defs
    by (auto simp: step_exception_def Let_def should_continue_iff sr split: sum.splits)
qed

lemma fold_previous_results_lookup:
  assumes "k \<notin> fst ` set rs" and "\<forall>p \<in> fst ` set rs. k \<noteq> p @ ''_result''"
  shows "map_of (fold (\<lambda>(prev_step, result) si.
                    if map_of si prev_step \<noteq> None
                    then AList.update (prev_step @ ''_result'') result si
                    else AList.update prev_step result si) rs si0) k = map_of si0 k"
  using assms by (induction rs arbitrary: si0) (auto simp: update_conv')

lemma prepare_step_input_lookup:
  assumes "k \<noteq> ''workflow_context''" and "k \<notin> fst ` set (results w)"
    and "\<forall>p \<in> fst ` set (results w). k \<noteq> p @ ''_result''"
  shows "map_of (prepare_step_input s inp w) k = map_of inp k"
  using assms fold_previous_results_lookup [of k "results w" inp]
  by (simp add: prepare_step_input_def Let_def update_conv')

lemma prepare_step_input_lookup_steps:
  assumes "fst ` set (results w) \<subseteq> set workflow_steps"
    and "k \<notin> {''workflow_context'', ''extraction'', ''validation'', ''eligibility'',
               ''extraction_result'', ''validation_result'', ''eligibility_result''}"
  shows "map_of (prepare_step_input s inp w) k = map_of inp k"
proof (rule prepare_step_input_lookup)
  show "k \<noteq> ''workflow_context''" using assms(2) by simp
  show "k \<notin> fst ` set (results w)" using assms by (auto simp: workflow_steps_def)
  show "\<forall>p \<in> fst ` set (results w). k \<noteq> p @ ''_result''"
  proof
    fix p assume "p \<in> fst ` set (results w)"
    then have "p \<in> set workflow_steps" using assms(1) by blast
    then show "k \<noteq> p @ ''_result''" using assms(2) by (auto simp: workflow_steps_def)
  qed
qed

lemma result_key_neq:
  "s @ ''_result'' \<noteq> ''validated_application_data''"
  "s @ ''_result'' \<noteq> ''extracted_data''"
  "s @ ''_result'' \<noteq> ''final_decision''"
proof -
  show "s @ ''_result'' \<noteq> ''validated_application_data''"
  proof
    assume "s @ ''_result'' = ''validated_application_data''"
    then have "last (s @ ''_result'') = last ''validated_application_data''" by simp
    then show False by simp
  qed
  show "s @ ''_result'' \<noteq> ''extracted_data''"
  proof
    assume "s @ ''_result'' = ''extracted_data''"
    then have "last (s @ ''_result'') = last ''extracted_data''" by simp
    then show False by simp
  qed
  show "s @ ''_result'' \<noteq> ''final_decision''"
  proof
    assume "s @ ''_result'' = ''final_decision''"
    then have "last (s @ ''_result'') = last ''final_decision''" by simp
    then show False by simp
  qed
qed

lemma prepare_next_lookup:
  assumes "prepare_input_for_next_step s r inp = Inr n"
    and "k \<notin> {s @ ''_result'', ''extracted_data'', ''validation_result'', ''eligibility_result'',
               ''validated_application_data''}"
  shows "map_of n k = map_of inp k"
  using assms
  by (auto simp: prepare_input_for_next_step_def Let_def update_conv'
           split: if_splits option.splits)

lemma prepare_next_validated:
  assumes "prepare_input_for_next_step s r inp = Inr n"
  shows "map_of n ''validated_application_data'' =
     (if s = ''validation'' \<and> success r then
        (case data r of
           Some d \<Rightarrow> (case map_of d ''resolved_data'' of
                        Some rd \<Rightarrow> Some rd
                      | None \<Rightarrow> map_of inp ''validated_application_data'')
         | None \<Rightarrow> map_of inp ''validated_application_data'')
      else map_of inp ''validated_application_data'')"
  using assms result_key_neq(1) [of s]
  by (auto simp: prepare_input_for_next_step_def Let_def update_conv'
           split: if_splits option.splits)

lemma prepare_next_extracted:
  assumes "prepare_input_for_next_step s r inp = Inr n"
  shows "map_of n ''extracted_data'' =
     (if s = ''extraction'' \<and> success r then Some (opt_dict (data r))
      else map_of inp ''extracted_data'')"
  using assms result_key_neq(2) [of s]
  by (auto simp: prepare_input_for_next_step_def Let_def update_conv'
           split: if_splits option.splits)

lemma run_steps_three:
  fixes bi :: builtins and ev :: env and ags :: agents and st0 :: run_state
  defines "b1 \<equiv> step_body bi ev ags 0 ''extraction'' st0"
  defines "b2 \<equiv> step_body bi ev ags (Suc 0) ''validation'' (fst b1)"
  defines "b3 \<equiv> step_body bi ev ags (Suc (Suc 0)) ''eligibility'' (fst b2)"
  shows "run_steps bi ev ags 0 workflow_steps st0 = (if snd b1 then fst b1 else fst b3)"
proof -
  have n2: "\<not> snd b2"
    unfolding b2_def using step_body_facts(2) [OF agents_get_simps(2)] by simp
  have n3: "\<not> snd b3"
    unfolding b3_def using step_body_facts(2) [OF agents_get_simps(3)] by simp
  show ?thesis
    unfolding workflow_steps_def
    by (simp add: case_prod_beta b1_def [symmetric] b2_def [symmetric] b3_def [symmetric] n2 n3)
qed

lemma record_result_keys:
  "fst ` set (record_result bi s out rs) \<subseteq> insert s (fst ` set rs)"
  by (auto simp: record_result_def dom_update)

lemma aggregate_without_decision:
  assumes "fst ` set (results wst) \<subseteq> set workflow_steps" and "end_time wst = Some t"
  shows "\<exists>agg. aggregate_workflow_results ev wst = Inr agg \<and> map_of agg ''final_decision'' = None"
proof -
  have fold_fd: "map_of (fold (\<lambda>(step_name, result). AList.update (step_name @ ''_result'') result) rs agg) ''final_decision''
     = map_of agg ''final_decision''" for rs and agg :: pydict
    by (induction rs arbitrary: agg) (auto simp: update_conv' result_key_neq)
  have "''eligibility_result'' \<notin> fst ` set (results wst)"
    using assms(1) by (auto simp: workflow_steps_def)
  then have "map_of (results wst) ''eligibility_result'' = None"
    by (simp add: map_of_eq_None_iff)
  then show ?thesis
    using assms(2) by (simp add: aggregate_workflow_results_def Let_def fold_fd)
qed

lemma process_run_cases [case_names aborted continued]:
  fixes bi :: builtins and ev :: env and ags :: agents and inp :: pydict
  defines "r \<equiv> process bi ev ags inp"
  obtains
    (aborted) c1 where
      "run_invocations r = [c1]" "inv_step c1 = ''extraction''"
      "inv_outcome c1 = extraction_agent ags (inv_input c1)"
      "outcome_failed (inv_outcome c1)"
      "status (run_state r) = ''failed''" "results (run_state r) = []"
      "errors (run_state r) \<noteq> []"
      "map_of (inv_input c1) ''validated_application_data'' = map_of inp ''validated_application_data''"
  | (continued) c1 c2 c3 where
      "run_invocations r = [c1, c2, c3]"
      "inv_step c1 = ''extraction''" "inv_step c2 = ''validation''" "inv_step c3 = ''eligibility''"
      "inv_outcome c1 = extraction_agent ags (inv_input c1)"
      "inv_outcome c2 = validation_agent ags (inv_input c2)"
      "inv_outcome c3 = eligibility_agent ags (inv_input c3)"
      "\<not> outcome_failed (inv_outcome c1)"
      "results (run_state r) =
         record_result bi ''eligibility'' (inv_outcome c3)
           (record_result bi ''validation'' (inv_outcome c2)
             (record_result bi ''extraction'' (inv_outcome c1) []))"
      "(errors (run_state r) = []) =
         (\<not> outcome_failed (inv_outcome c2) \<and> \<not> outcome_failed (inv_outcome c3) \<and>
          data (returned_result bi (inv_outcome c2)) \<noteq> None)"
      "status (run_state r) =
         (if errors (run_state r) = [] then ''completed_successfully'' else ''completed_with_errors'')"
      "map_of (inv_input c2) ''extracted_data'' =
         Some (opt_dict (data (returned_result bi (inv_outcome c1))))"
      "map_of (inv_input c2) ''application_data'' = map_of inp ''application_data''"
      "map_of (inv_input c1) ''validated_application_data'' = map_of inp ''validated_application_data''"
      "map_of (inv_input c2) ''validated_application_data'' = map_of inp ''validated_application_data''"
      "map_of (inv_input c3) ''validated_application_data'' =
         (case promoted_data bi (inv_outcome c2) of
            Some rd \<Rightarrow> Some rd
          | None \<Rightarrow> map_of inp ''validated_application_data'')"
proof -
  define st0 where "st0 = \<lparr>rs_workflow = \<lparr>workflow_id = new_workflow_id ev, start_time = clock_start ev,
      end_time = None, current_step = 0, total_steps = length workflow_steps, results = [],
      errors = [], status = ''processing''\<rparr>, rs_input = inp, rs_invocations = []\<rparr>"
  define b1 where "b1 = step_body bi ev ags 0 ''extraction'' st0"
  define b2 where "b2 = step_body bi ev ags (Suc 0) ''validation'' (fst b1)"
  define b3 where "b3 = step_body bi ev ags (Suc (Suc 0)) ''eligibility'' (fst b2)"
  define c1 where "c1 = step_call (extraction_agent ags) 0 ''extraction'' st0"
  define c2 where "c2 = step_call (validation_agent ags) (Suc 0) ''validation'' (fst b1)"
  define c3 where "c3 = step_call (eligibility_agent ags) (Suc (Suc 0)) ''eligibility'' (fst b2)"
  define fin where "fin = run_steps bi ev ags 0 workflow_steps st0"
  define res1 where "res1 = returned_result bi (inv_outcome c1)"
  define res2 where "res2 = returned_result bi (inv_outcome c2)"
  define res3 where "res3 = returned_result bi (inv_outcome c3)"
  note f1 = step_body_facts [where bi=bi and ev=ev and ags=ags and idx=0 and st=st0
      and s="''extraction''" and ag="extraction_agent ags", OF agents_get_simps(1),
      folded b1_def c1_def, folded res1_def]
  note f2 = step_body_facts [where bi=bi and ev=ev and ags=ags and idx="Suc 0" and st="fst b1"
      and s="''validation''" and ag="validation_agent ags", OF agents_get_simps(2),
      folded b2_def c2_def, folded res2_def]
  note f3 = step_body_facts [where bi=bi and ev=ev and ags=ags and idx="Suc (Suc 0)" and st="fst b2"
      and s="''eligibility''" and ag="eligibility_agent ags", OF agents_get_simps(3),
      folded b3_def c3_def, folded res3_def]
  have fin: "fin = (if snd b1 then fst b1 else fst b3)"
    unfolding fin_def b1_def b2_def b3_def by (rule run_steps_three)
  have st0_simps: "results (rs_workflow st0) = []" "errors (rs_workflow st0) = []"
    "rs_invocations st0 = []" "rs_input st0 = inp" "end_time (rs_workflow st0) = None"
    by (simp_all add: st0_def)
  have c_steps: "inv_step c1 = ''extraction''" "inv_step c2 = ''validation''" "inv_step c3 = ''eligibility''"
    by (simp_all add: c1_def c2_def c3_def step_call_simps)
  have c_out: "inv_outcome c1 = extraction_agent ags (inv_input c1)"
    "inv_outcome c2 = validation_agent ags (inv_input c2)"
    "inv_outcome c3 = eligibility_agent ags (inv_input c3)"
    unfolding c1_def c2_def c3_def by (rule step_call_simps(2))+
  have b1_left: "snd b1 = outcome_failed (inv_outcome c1)" using f1(2) by simp
  have n2: "\<not> snd b2" using f2(2) by simp
  have n3: "\<not> snd b3" using f3(2) by simp
  \<comment> \<open>the run's record\<close>
  define w1 where "w1 = (rs_workflow fin)\<lparr>end_time := Some (clock_end ev)\<rparr>"
  have r_state: "run_state r = w1\<lparr>status := determine_final_status w1\<rparr>"
    and r_inv: "run_invocations r = rs_invocations fin"
    unfolding r_def process_def Let_def st0_def [symmetric] fin_def [symmetric] w1_def [symmetric]
    by simp_all
  have r_fields: "results (run_state r) = results (rs_workflow fin)"
    "errors (run_state r) = errors (rs_workflow fin)"
    "status (run_state r) = determine_final_status w1"
    "results w1 = results (rs_workflow fin)" "errors w1 = errors (rs_workflow fin)"
    "status w1 = status (rs_workflow fin)"
    by (simp_all add: r_state w1_def)
  \<comment> \<open>the inputs\<close>
  have in1: "map_of (inv_input c1) k = map_of inp k" if "k \<noteq> ''workflow_context''" for k
    using that
      prepare_step_input_lookup [where k=k and s="''extraction''" and inp="rs_input st0"
        and w="(rs_workflow st0)\<lparr>current_step := 0 + 1, status := ''processing_'' @ ''extraction''\<rparr>"]
    by (simp add: c1_def step_call_simps(3) st0_simps)
  show thesis
  proof (cases "snd b1")
    case True
    then have fin1: "fin = fst b1" by (simp add: fin)
    have failed1: "outcome_failed (inv_outcome c1)" using True b1_left by simp
    have "status (rs_workflow fin) = ''failed''" using f1(3) True by (simp add: fin1)
    then have s: "status (run_state r) = ''failed''"
      by (simp add: r_fields determine_final_status_def)
    have res: "results (run_state r) = []"
      using f1(4) failed1 by (simp add: r_fields fin1 record_result_def st0_simps)
    have err: "errors (run_state r) \<noteq> []"
      using f1(5) failed1 by (simp add: r_fields fin1)
    have inv: "run_invocations r = [c1]"
      using f1(1) by (simp add: r_inv fin1 st0_simps)
    show ?thesis
      by (rule aborted [OF inv c_steps(1) c_out(1) failed1 s res err in1]) simp
  next
    case False
    then have fin3: "fin = fst b3" by (simp add: fin)
    have ok1: "\<not> outcome_failed (inv_outcome c1)" using False b1_left by simp
    have inv: "run_invocations r = [c1, c2, c3]"
      by (simp add: r_inv fin3 f3(1) f2(1) f1(1) st0_simps)
    have res: "results (run_state r) =
         record_result bi ''eligibility'' (inv_outcome c3)
           (record_result bi ''validation'' (inv_outcome c2)
             (record_result bi ''extraction'' (inv_outcome c1) []))"
      by (simp add: r_fields fin3 f3(4) f2(4) f1(4) st0_simps)
    have err1: "errors (rs_workflow (fst b1)) = []"
      using f1(5) ok1 by (simp add: st0_simps)
    have err: "(errors (run_state r) = []) =
         (\<not> outcome_failed (inv_outcome c2) \<and> \<not> outcome_failed (inv_outcome c3) \<and>
          data (returned_result bi (inv_outcome c2)) \<noteq> None)"
      using f3(5) f2(5) err1 by (auto simp: r_fields fin3 res2_def)
    have st3: "status (rs_workflow fin) = ''processing_eligibility''"
      using f3(3) n3 by (simp add: fin3)
    have len: "length (results (run_state r)) = 3"
      if "\<not> outcome_failed (inv_outcome c2)" "\<not> outcome_failed (inv_outcome c3)"
      using that ok1 by (simp add: res record_result_def)
    have stat: "status (run_state r) =
         (if errors (run_state r) = [] then ''completed_successfully'' else ''completed_with_errors'')"
    proof (cases "errors (run_state r) = []")
      case True
      then have "length (results w1) = 3" using err len by (simp add: r_fields)
      then show ?thesis
        using True st3
        by (simp add: r_fields determine_final_status_def workflow_steps_def)
    next
      case False
      then show ?thesis
        using st3 by (simp add: r_fields determine_final_status_def)
    qed
    \<comment> \<open>the working payload after each step\<close>
    obtain n1 where n1: "prepare_input_for_next_step ''extraction'' res1 inp = Inr n1"
      using prepare_next_raises_iff [of "''extraction''" res1 inp]
      by (cases "prepare_input_for_next_step ''extraction'' res1 inp") auto
    have in_b1: "rs_input (fst b1) = n1"
      using f1(6) False n1 by (simp add: st0_simps)
    have succ1: "success res1"
      using ok1 by (simp add: res1_def success_returned_result)
    have keys1: "fst ` set (results (rs_workflow (fst b1))) \<subseteq> {''extraction''}"
      using record_result_keys [of bi "''extraction''" "inv_outcome c1" "[]"]
      by (simp add: f1(4) st0_simps)
    have keys2: "fst ` set (results (rs_workflow (fst b2))) \<subseteq> {''extraction'', ''validation''}"
      using record_result_keys [of bi "''validation''" "inv_outcome c2" "results (rs_workflow (fst b1))"] keys1
      by (auto simp: f2(4))
    have in2: "map_of (inv_input c2) k = map_of n1 k"
      if "k \<notin> {''workflow_context'', ''extraction'', ''validation'', ''eligibility'',
               ''extraction_result'', ''validation_result'', ''eligibility_result''}" for k
      unfolding c2_def step_call_simps(3) in_b1
      by (rule prepare_step_input_lookup_steps) (use keys1 that in \<open>auto simp: workflow_steps_def\<close>)
    have in3: "map_of (inv_input c3) k = map_of (rs_input (fst b2)) k"
      if "k \<notin> {''workflow_context'', ''extraction'', ''validation'', ''eligibility'',
               ''extraction_result'', ''validation_result'', ''eligibility_result''}" for k
      unfolding c3_def step_call_simps(3)
      by (rule prepare_step_input_lookup_steps) (use keys2 that in \<open>auto simp: workflow_steps_def\<close>)
    have ext2: "map_of (inv_input c2) ''extracted_data'' =
         Some (opt_dict (data (returned_result bi (inv_outcome c1))))"
      using prepare_next_extracted [OF n1] succ1 by (simp add: in2 res1_def)
    have app2: "map_of (inv_input c2) ''application_data'' = map_of inp ''application_data''"
      using prepare_next_lookup [OF n1, of "''application_data''"] by (simp add: in2)
    have vad_n1: "map_of n1 ''validated_application_data'' = map_of inp ''validated_application_data''"
      using prepare_next_validated [OF n1] by simp
    have vad2: "map_of (inv_input c2) ''validated_application_data'' = map_of inp ''validated_application_data''"
      using vad_n1 by (simp add: in2)
    have sr2: "success res2 = (\<not> outcome_failed (inv_outcome c2))"
      by (simp add: res2_def success_returned_result)
    have vad_b2: "map_of (rs_input (fst b2)) ''validated_application_data'' =
         (case promoted_data bi (inv_outcome c2) of
            Some rd \<Rightarrow> Some rd
          | None \<Rightarrow> map_of inp ''validated_application_data'')"
    proof (cases "prepare_input_for_next_step ''validation'' res2 n1")
      case (Inl e)
      then have "success res2 \<and> data res2 = None"
        using prepare_next_raises_iff [of "''validation''" res2 n1] by auto
      then show ?thesis
        using f2(6) n2 Inl vad_n1
        by (simp add: in_b1 promoted_data_def res2_def [symmetric] sr2 [symmetric])
    next
      case (Inr n2')
      then have "map_of (rs_input (fst b2)) ''validated_application_data'' =
                   map_of n2' ''validated_application_data''"
        using f2(6) n2 by (simp add: in_b1)
      then show ?thesis
        using prepare_next_validated [OF Inr] vad_n1
        by (auto simp: promoted_data_def res2_def [symmetric] sr2 split: option.splits)
    qed
    have vad3: "map_of (inv_input c3) ''validated_application_data'' =
         (case promoted_data bi (inv_outcome c2) of
            Some rd \<Rightarrow> Some rd
          | None \<Rightarrow> map_of inp ''validated_application_data'')"
      using vad_b2 by (simp add: in3)
    show ?thesis
      by (rule continued [OF inv c_steps c_out ok1 res err stat ext2 app2 in1 vad2 vad3]) simp
  qed
qed

lemma process_result:
  fixes bi :: builtins and ev :: env and ags :: agents and inp :: pydict
  defines "r \<equiv> process bi ev ags inp"
  shows "\<exists>agg. map_of agg ''final_decision'' = None \<and>
           run_result r =
             (if status (run_state r) \<in> set [''failed'', ''completed_with_errors''] then
                create_error_result (''Workflow completed with errors: '' @ status (run_state r))
              else
                (case calculate_workflow_confidence (run_state r) of
                   Inl e \<Rightarrow> create_error_result (''Workflow execution failed: '' @ exc_str bi e)
                 | Inr confidence \<Rightarrow> create_success_result agg confidence))"
proof -
  have keys: "fst ` set (results (run_state r)) \<subseteq> set workflow_steps"
  proof (cases bi ev ags inp rule: process_run_cases)
    case (aborted c1)
    then show ?thesis by (simp add: r_def)
  next
    case (continued c1 c2 c3)
    have k1: "fst ` set (record_result bi ''extraction'' (inv_outcome c1) []) \<subseteq> {''extraction''}"
      using record_result_keys [of bi "''extraction''" "inv_outcome c1" "[]"] by simp
    have k2: "fst ` set (record_result bi ''validation'' (inv_outcome c2)
                 (record_result bi ''extraction'' (inv_outcome c1) [])) \<subseteq> {''extraction'', ''validation''}"
      by (rule order_trans [OF record_result_keys]) (use k1 in auto)
    have "fst ` set (results (run_state r)) \<subseteq> {''extraction'', ''validation'', ''eligibility''}"
      unfolding r_def continued(9)
      by (rule order_trans [OF record_result_keys]) (use k2 in auto)
    then show ?thesis by (auto simp: workflow_steps_def)
  qed
  have et: "end_time (run_state r) = Some (clock_end ev)"
    by (simp add: r_def process_def Let_def)
  obtain agg where agg: "aggregate_workflow_results ev (run_state r) = Inr agg"
      "map_of agg ''final_decision'' = None"
    using aggregate_without_decision [OF keys et] by blast
  have "run_result r =
          (case aggregate_workflow_results ev (run_state r) of
             Inl e \<Rightarrow> create_error_result (''Workflow execution failed: '' @ exc_str bi e)
           | Inr final_result \<Rightarrow>
               if status (run_state r) \<in> set [''failed'', ''completed_with_errors''] then
                 create_error_result (''Workflow completed with errors: '' @ status (run_state r))
               else
                 (case calculate_workflow_confidence (run_state r) of
                    Inl e \<Rightarrow> create_error_result (''Workflow execution failed: '' @ exc_str bi e)
                  | Inr confidence \<Rightarrow> create_success_result final_result confidence))"
    unfolding r_def process_def Let_def run.select_convs by (rule refl)
  then show ?thesis using agg by auto
qed

lemma terminal_status_values:
  "status (run_state (process bi ev ags inp)) \<in>
     {''failed'', ''completed_with_errors'', ''completed_successfully''}"
proof (cases bi ev ags inp rule: process_run_cases)
  case (aborted c1)
  then show ?thesis by simp
next
  case (continued c1 c2 c3)
  then show ?thesis by simp
qed

lemma failing_extraction_run:
  assumes "\<And>i. outcome_failed (extraction_agent ags i)"
  shows "stage_failed (process bi ev ags inp) ''extraction'' \<and>
         status (run_state (process bi ev ags inp)) = ''failed''"
proof (cases bi ev ags inp rule: process_run_cases)
  case (aborted c1)
  then show ?thesis by (simp add: stage_failed_def)
next
  case (continued c1 c2 c3)
  then show ?thesis using assms by simp
qed

lemma passing_extraction_run:
  assumes "\<And>i. \<not> outcome_failed (extraction_agent ags i)"
  shows "stage_succeeded (process bi ev ags inp) ''extraction''"
proof (cases bi ev ags inp rule: process_run_cases)
  case (aborted c1)
  then show ?thesis using assms by simp
next
  case (continued c1 c2 c3)
  then show ?thesis by (simp add: stage_succeeded_def)
qed

lemma failing_eligibility_run:
  assumes "\<And>i. \<not> outcome_failed (extraction_agent ags i)"
    and "\<And>i. outcome_failed (eligibility_agent ags i)"
  shows "stage_failed (process bi ev ags inp) ''eligibility''"
proof (cases bi ev ags inp rule: process_run_cases)
  case (aborted c1)
  then show ?thesis using assms by simp
next
  case (continued c1 c2 c3)
  then show ?thesis using assms(2) by (simp add: stage_failed_def)
qed

lemma demo_outcomes:
  "\<not> outcome_failed (extraction_ok i)" "outcome_failed (extraction_failing i)"
  "\<not> outcome_failed (eligibility_ok i)" "outcome_failed (eligibility_failing i)"
  by (simp_all add: outcome_failed_def extraction_ok_def extraction_failing_def eligibility_ok_def
        eligibility_failing_def create_success_result_def create_error_result_def)

lemma demo_agents_simps:
  "extraction_agent demo_agents = extraction_ok"
  "validation_agent demo_agents = (\<lambda>inp. Inr (validation_process demo_builtins inp))"
  "eligibility_agent demo_agents = eligibility_ok"
  "extraction_agent aborting_agents = extraction_failing"
  "extraction_agent degraded_agents = extraction_ok"
  "eligibility_agent degraded_agents = eligibility_failing"
  "validation_agent degraded_agents = (\<lambda>inp. Inr (validation_process demo_builtins inp))"
  by (simp_all add: demo_agents_def aborting_agents_def degraded_agents_def)

lemma validation_process_no_resolved_data:
  "promoted_data bi (Inr (validation_process bi' i)) = None"
  by (simp add: promoted_data_def returned_result_def outcome_failed_def validation_process_def
        Let_def create_error_result_def create_success_result_def split: pyval.splits)

section \<open>Properties of the orchestrator\<close>

text \<open>
  Claim C1. In every run in which the extraction stage fails (it raises, or its result has
  \<^verbatim>\<open>success=False\<close>), the terminal status of the workflow is \<^verbatim>\<open>'failed'\<close>, neither the validation
  stage nor the eligibility stage is invoked, and the stage results hold no entry for them.
\<close>

theorem extraction_failure_aborts_run:
  assumes "stage_failed (process bi ev ags inp) ''extraction''"
  shows "status (run_state (process bi ev ags inp)) = ''failed'' \<and>
         \<not> stage_invoked (process bi ev ags inp) ''validation'' \<and>
         \<not> stage_invoked (process bi ev ags inp) ''eligibility'' \<and>
         map_of (results (run_state (process bi ev ags inp))) ''validation'' = None \<and>
         map_of (results (run_state (process bi ev ags inp))) ''eligibility'' = None"
proof (cases bi ev ags inp rule: process_run_cases)
  case (aborted c1)
  then show ?thesis by (simp add: stage_invoked_def)
next
  case (continued c1 c2 c3)
  then have False using assms by (auto simp: stage_failed_def)
  then show ?thesis ..
qed

theorem extraction_failure_aborts_run_witness:
  "stage_failed (process demo_builtins demo_env aborting_agents demo_input) ''extraction'' \<and>
   status (run_state (process demo_builtins demo_env aborting_agents demo_input)) = ''failed'' \<and>
   \<not> stage_invoked (process demo_builtins demo_env aborting_agents demo_input) ''validation'' \<and>
   \<not> stage_invoked (process demo_builtins demo_env aborting_agents demo_input) ''eligibility''"
  using extraction_failure_aborts_run [of demo_builtins demo_env aborting_agents demo_input]
    failing_extraction_run [of aborting_agents demo_builtins demo_env demo_input]
  by (simp add: demo_agents_simps demo_outcomes)

text \<open>
  Claim C3. In every run in which the extraction stage succeeds and the validation or the
  eligibility stage fails, the three stages are all invoked, in the order of the workflow,
  the terminal status is \<^verbatim>\<open>'completed_with_errors'\<close>, and the result returned to the invoker
  is an error result.
\<close>

theorem soft_failure_completes_with_errors:
  assumes "stage_succeeded (process bi ev ags inp) ''extraction''"
    and "stage_failed (process bi ev ags inp) ''validation'' \<or>
         stage_failed (process bi ev ags inp) ''eligibility''"
  shows "map inv_step (run_invocations (process bi ev ags inp)) = workflow_steps \<and>
         status (run_state (process bi ev ags inp)) = ''completed_with_errors'' \<and>
         \<not> success (run_result (process bi ev ags inp))"
proof (cases bi ev ags inp rule: process_run_cases)
  case (aborted c1)
  then have False using assms(1) by (auto simp: stage_succeeded_def)
  then show ?thesis ..
next
  case (continued c1 c2 c3)
  have "outcome_failed (inv_outcome c2) \<or> outcome_failed (inv_outcome c3)"
    using assms(2) continued(1-4) by (auto simp: stage_failed_def)
  then have err: "errors (run_state (process bi ev ags inp)) \<noteq> []"
    using continued(10) by auto
  then have st: "status (run_state (process bi ev ags inp)) = ''completed_with_errors''"
    using continued(11) by simp
  have "\<not> success (run_result (process bi ev ags inp))"
    using process_result [of bi ev ags inp] st by (auto simp: create_error_result_def)
  then show ?thesis
    using st continued(1-4) by (simp add: workflow_steps_def)
qed

theorem soft_failure_completes_with_errors_witness:
  "stage_succeeded (process demo_builtins demo_env degraded_agents demo_input) ''extraction'' \<and>
   stage_failed (process demo_builtins demo_env degraded_agents demo_input) ''eligibility'' \<and>
   map inv_step (run_invocations (process demo_builtins demo_env degraded_agents demo_input)) =
     [''extraction'', ''validation'', ''eligibility''] \<and>
   status (run_state (process demo_builtins demo_env degraded_agents demo_input)) = ''completed_with_errors'' \<and>
   \<not> success (run_result (process demo_builtins demo_env degraded_agents demo_input))"
  using soft_failure_completes_with_errors [of demo_builtins demo_env degraded_agents demo_input]
    passing_extraction_run [of degraded_agents demo_builtins demo_env demo_input]
    failing_eligibility_run [of degraded_agents demo_builtins demo_env demo_input]
  by (simp add: demo_agents_simps demo_outcomes workflow_steps_def)

text \<open>
  Claim C4. In every run whose terminal status is not \<^verbatim>\<open>'completed_successfully'\<close>, the
  result returned to the caller is a failure.
\<close>

theorem unsuccessful_status_is_reported_as_failure:
  assumes "status (run_state (process bi ev ags inp)) \<noteq> ''completed_successfully''"
  shows "\<not> success (run_result (process bi ev ags inp))"
proof -
  have "status (run_state (process bi ev ags inp)) \<in> set [''failed'', ''completed_with_errors'']"
  proof (cases bi ev ags inp rule: process_run_cases)
    case (aborted c1)
    then show ?thesis by simp
  next
    case (continued c1 c2 c3)
    then show ?thesis using assms by (simp split: if_splits)
  qed
  then show ?thesis
    using process_result [of bi ev ags inp] by (auto simp: create_error_result_def)
qed

theorem unsuccessful_status_is_reported_as_failure_witness:
  "status (run_state (process demo_builtins demo_env aborting_agents demo_input)) = ''failed'' \<and>
   \<not> success (run_result (process demo_builtins demo_env aborting_agents demo_input))"
  using unsuccessful_status_is_reported_as_failure [of demo_builtins demo_env aborting_agents demo_input]
    failing_extraction_run [of aborting_agents demo_builtins demo_env demo_input]
  by (simp add: demo_agents_simps demo_outcomes)

end
